theory Spec2Isabelle
  imports Main
begin

section \<open>Machine-controller teardown: \<open>pkg/templates/machinecontroller/helper.go\<close>\<close>

subsection \<open>Errors\<close>

text \<open>
  The cluster client reports failures as Go \<open>error\<close> values. The only inspection the
  teardown makes of them is through \<open>errorsutil.IsTimeout\<close> and
  \<open>errorsutil.IsServerTimeout\<close> of the Kubernetes library
  \<open>k8s.io/apimachinery/pkg/api/errors\<close>: both compare \<open>ReasonForError err\<close> with one
  status reason, and \<open>ReasonForError\<close> is the reason of an API status error and
  \<open>StatusReasonUnknown\<close> for every other error value. A kind that is not registered in
  the cluster surfaces as a \<open>NoKindMatchError\<close> of the REST mapper, which is not an API
  status error.
\<close>

datatype StatusReason =
    StatusReasonUnknown
  | StatusReasonTimeout
  | StatusReasonServerTimeout
  | StatusReasonNotFound
  | StatusReasonForbidden
  | StatusReasonInternalError

datatype api_error =
    StatusError StatusReason string
  | NoKindMatchError string
  | PlainError string

fun ReasonForError :: "api_error \<Rightarrow> StatusReason" where
  "ReasonForError (StatusError reason msg) = reason"
| "ReasonForError (NoKindMatchError k) = StatusReasonUnknown"
| "ReasonForError (PlainError msg) = StatusReasonUnknown"

definition IsTimeout :: "api_error \<Rightarrow> bool" where
  "IsTimeout e = (ReasonForError e = StatusReasonTimeout)"

definition IsServerTimeout :: "api_error \<Rightarrow> bool" where
  "IsServerTimeout e = (ReasonForError e = StatusReasonServerTimeout)"

text \<open>
  Errors returned by the teardown: \<open>errors.New msg\<close>, \<open>errors.Wrap err msg\<close> around a
  client error, and the \<open>wait.ErrWaitTimeout\<close> of the poll.
\<close>

datatype err =
    New string
  | Wrap api_error string
  | ErrWaitTimeout

subsection \<open>The cluster client and its instrumentation\<close>

datatype kind = MachineDeployment | MachineSet | Machine

type_synonym obj = string

text \<open>
  \<open>ctx.DynamicClient\<close> is an interface value: \<open>List\<close> fills a typed list from a namespace,
  \<open>Delete\<close> removes one object. The cluster behind it is a state \<open>'s\<close> that every call may
  change, so later lists may see the effect of earlier deletes and of the controllers of
  the cluster.
\<close>

record 's client =
  List :: "string \<Rightarrow> kind \<Rightarrow> 's \<Rightarrow> (api_error + obj list) \<times> 's"
  Delete :: "kind \<Rightarrow> obj \<Rightarrow> 's \<Rightarrow> api_error option \<times> 's"

text \<open>
  Every call that leaves the function is recorded, in order, with its answer: list and
  delete calls of the client, log lines, and the waits of the poll (seconds).
\<close>

datatype event =
    EvList kind "api_error + obj list"
  | EvDelete kind obj "api_error option"
  | EvSleep nat
  | EvInfo string

record 's run =
  events :: "event list"
  cluster :: "'s"

definition start :: "'s \<Rightarrow> 's run" where
  "start s = \<lparr>events = [], cluster = s\<rparr>"

definition emit :: "event \<Rightarrow> 's run \<Rightarrow> 's run" where
  "emit e r = r\<lparr>events := events r @ [e]\<rparr>"

definition clientList ::
  "'s client \<Rightarrow> string \<Rightarrow> kind \<Rightarrow> 's run \<Rightarrow> (api_error + obj list) \<times> 's run" where
  "clientList c ns k r =
     (case List c ns k (cluster r) of
        (res, s') \<Rightarrow> (res, \<lparr>events = events r @ [EvList k res], cluster = s'\<rparr>))"

definition clientDelete ::
  "'s client \<Rightarrow> kind \<Rightarrow> obj \<Rightarrow> 's run \<Rightarrow> api_error option \<times> 's run" where
  "clientDelete c k x r =
     (case Delete c k x (cluster r) of
        (res, s') \<Rightarrow> (res, \<lparr>events = events r @ [EvDelete k x res], cluster = s'\<rparr>))"

subsection \<open>The context\<close>

record MachineControllerConfig =
  Deploy :: bool

record KubeOneCluster =
  MachineController :: MachineControllerConfig

record 's Context =
  Cluster :: KubeOneCluster
  DynamicClient :: "'s client option"

subsection \<open>\<open>wait.Poll\<close>\<close>

text \<open>
  \<open>wait.Poll interval timeout condition\<close> belongs to the Kubernetes library
  \<open>k8s.io/apimachinery/pkg/util/wait\<close>. Its contract there: \<^emph>\<open>Poll always waits the
  interval before the run of condition; condition will always be invoked at least once\<close>.
  It is \<open>WaitFor\<close> on the channel of \<open>poller interval timeout\<close>: a ticker sends on the
  channel every \<open>interval\<close>, and the channel is closed when \<open>timeout\<close> has passed. \<open>WaitFor\<close>
  receives from the channel, runs the condition, returns its error or success, and
  repeats; after the receive that found the channel closed the condition is run one last
  time and \<open>ErrWaitTimeout\<close> is returned when it is still false.

  The channel is the list of waits that precede its ticks; the empty list is the closed
  channel.
\<close>

definition poller :: "nat \<Rightarrow> nat \<Rightarrow> nat list" where
  "poller interval timeout = replicate (timeout div interval) interval"

fun WaitFor ::
  "nat list \<Rightarrow> ('s run \<Rightarrow> (err + bool) \<times> 's run) \<Rightarrow> 's run \<Rightarrow> err option \<times> 's run" where
  "WaitFor [] fn r =
     (case fn r of
        (Inl e, r') \<Rightarrow> (Some e, r')
      | (Inr ok, r') \<Rightarrow> if ok then (None, r') else (Some ErrWaitTimeout, r'))"
| "WaitFor (d # ch) fn r =
     (case fn (emit (EvSleep d) r) of
        (Inl e, r') \<Rightarrow> (Some e, r')
      | (Inr ok, r') \<Rightarrow> if ok then (None, r') else WaitFor ch fn r')"

definition Poll ::
  "nat \<Rightarrow> nat \<Rightarrow> ('s run \<Rightarrow> (err + bool) \<times> 's run) \<Rightarrow> 's run \<Rightarrow> err option \<times> 's run" where
  "Poll interval timeout condition r = WaitFor (poller interval timeout) condition r"

subsection \<open>\<open>DeleteAllMachines\<close>\<close>

text \<open>
  The three \<open>for _, obj := range list.Items\<close> loops: delete each item in order, stop at
  the first failure and return it wrapped.
\<close>

fun deleteItems ::
  "'s client \<Rightarrow> kind \<Rightarrow> string \<Rightarrow> obj list \<Rightarrow> 's run \<Rightarrow> err option \<times> 's run" where
  "deleteItems c k msg [] r = (None, r)"
| "deleteItems c k msg (x # xs) r =
     (case clientDelete c k x r of
        (Some e, r') \<Rightarrow> (Some (Wrap e msg), r')
      | (None, r') \<Rightarrow> deleteItems c k msg xs r')"

text \<open>The condition closure handed to \<open>wait.Poll\<close>.\<close>

definition machinesGone :: "'s client \<Rightarrow> string \<Rightarrow> 's run \<Rightarrow> (err + bool) \<times> 's run" where
  "machinesGone c ns r =
     (case clientList c ns Machine r of
        (Inl e, r') \<Rightarrow> (Inl (Wrap e ''unable to list machine objects''), r')
      | (Inr items, r') \<Rightarrow> if length items \<noteq> 0 then (Inr False, r') else (Inr True, r'))"

text \<open>
  \<open>DeleteAllMachines\<close>, with the package constant \<open>MachineControllerNamespace\<close> (declared
  in another file of the package) as the parameter \<open>ns\<close>. The result is the returned
  error, \<open>None\<close> for \<open>nil\<close>.
\<close>

definition DeleteAllMachines :: "string \<Rightarrow> 's Context \<Rightarrow> 's run \<Rightarrow> err option \<times> 's run" where
  "DeleteAllMachines ns ctx r =
     (if \<not> Deploy (MachineController (Cluster ctx)) then
        (None, emit (EvInfo ''Skipping deleting worker machines because machine-controller is disabled in configuration.'') r)
      else case DynamicClient ctx of
        None \<Rightarrow> (Some (New ''kubernetes client not initialized''), r)
      | Some c \<Rightarrow>
        (case clientList c ns MachineDeployment r of
           (Inl e, r1) \<Rightarrow>
             if IsTimeout e \<or> IsServerTimeout e then
               (Some (Wrap e ''unable to list machinedeployment objects''), r1)
             else
               (None, emit (EvInfo ''Skipping deleting worker nodes because MachineDeployments CRD is not deployed'') r1)
         | (Inr mdList, r1) \<Rightarrow>
        (case deleteItems c MachineDeployment ''unable to delete machinedeployment object'' mdList r1 of
           (Some e, r2) \<Rightarrow> (Some e, r2)
         | (None, r2) \<Rightarrow>
        (case clientList c ns MachineSet r2 of
           (Inl e, r3) \<Rightarrow> (Some (Wrap e ''unable to list machineset objects''), r3)
         | (Inr msList, r3) \<Rightarrow>
        (case deleteItems c MachineSet ''unable to delete machineset object'' msList r3 of
           (Some e, r4) \<Rightarrow> (Some e, r4)
         | (None, r4) \<Rightarrow>
        (case clientList c ns Machine r4 of
           (Inl e, r5) \<Rightarrow> (Some (Wrap e ''unable to list machine objects''), r5)
         | (Inr mList, r5) \<Rightarrow>
        (case deleteItems c Machine ''unable to delete machine object'' mList r5 of
           (Some e, r6) \<Rightarrow> (Some e, r6)
         | (None, r6) \<Rightarrow> Poll 5 180 (machinesGone c ns) r6)))))))"

subsection \<open>Reading the trace\<close>

text \<open>
  The kinds of the delete calls of a trace, in the order they were issued, and the
  level of a kind in the hierarchy MachineDeployment, MachineSet, Machine.
\<close>

fun deleteKinds :: "event list \<Rightarrow> kind list" where
  "deleteKinds [] = []"
| "deleteKinds (EvDelete k x a # es) = k # deleteKinds es"
| "deleteKinds (EvList k resp # es) = deleteKinds es"
| "deleteKinds (EvSleep d # es) = deleteKinds es"
| "deleteKinds (EvInfo msg # es) = deleteKinds es"

fun rank :: "kind \<Rightarrow> nat" where
  "rank MachineDeployment = 0"
| "rank MachineSet = 1"
| "rank Machine = 2"

text \<open>A list answer that succeeded with a non-zero count.\<close>

fun nonZeroCount :: "api_error + obj list \<Rightarrow> bool" where
  "nonZeroCount (Inl e) = False"
| "nonZeroCount (Inr items) = (items \<noteq> [])"

subsection \<open>Clients used as concrete inputs\<close>

text \<open>A context with the feature enabled or disabled and the given client.\<close>

definition mkContext :: "bool \<Rightarrow> 's client option \<Rightarrow> 's Context" where
  "mkContext deploy c =
     \<lparr>Cluster = \<lparr>MachineController = \<lparr>Deploy = deploy\<rparr>\<rparr>, DynamicClient = c\<rparr>"

text \<open>A cluster that answers every list with the same items and accepts every delete.\<close>

definition constClient :: "obj list \<Rightarrow> unit client" where
  "constClient items =
     \<lparr>List = (\<lambda>ns k s. (Inr items, s)), Delete = (\<lambda>k x s. (None, s))\<rparr>"


text \<open>
  A cluster that holds the names of the objects of each kind as its state: a list returns
  the objects of the kind, and a delete removes the object at once.
\<close>

record store =
  deployments :: "obj list"
  sets :: "obj list"
  machines :: "obj list"

definition storeClient :: "store client" where
  "storeClient =
     \<lparr>List = (\<lambda>ns k s.
        case k of
          MachineDeployment \<Rightarrow> (Inr (deployments s), s)
        | MachineSet \<Rightarrow> (Inr (sets s), s)
        | Machine \<Rightarrow> (Inr (machines s), s)),
      Delete = (\<lambda>k x s.
        case k of
          MachineDeployment \<Rightarrow> (None, s\<lparr>deployments := removeAll x (deployments s)\<rparr>)
        | MachineSet \<Rightarrow> (None, s\<lparr>sets := removeAll x (sets s)\<rparr>)
        | Machine \<Rightarrow> (None, s\<lparr>machines := removeAll x (machines s)\<rparr>))\<rparr>"

section \<open>End-to-end provisioners\<close>

subsection \<open>The command runner\<close>

text \<open>
  Modelled from the spec: \<open>executeCommand\<close> is declared in another file of the package.
  The spec gives its interface: \<open>execute(workingDirectory, programName, argumentList,
  environmentOverrides) -> (combinedOutput, err)\<close>, with a non-nil error on a non-zero
  exit. The process that is run is the parameter \<open>run\<close>: it maps a command and the state of
  the world to the error text (\<open>Inl\<close>) or the captured output (\<open>Inr\<close>) and the new state.
  Every invocation is recorded in \<open>calls\<close>.
\<close>

record command =
  workingDirectory :: string
  programName :: string
  argumentList :: "string list"
  environmentOverrides :: "string list"

type_synonym 'w runner = "command \<Rightarrow> 'w \<Rightarrow> (string + string) \<times> 'w"

record 'w shell =
  calls :: "command list"
  world :: "'w"

definition startShell :: "'w \<Rightarrow> 'w shell" where
  "startShell w = \<lparr>calls = [], world = w\<rparr>"

definition executeCommand ::
  "'w runner \<Rightarrow> string \<Rightarrow> string \<Rightarrow> string list \<Rightarrow> string list \<Rightarrow> 'w shell
     \<Rightarrow> (string + string) \<times> 'w shell" where
  "executeCommand run dir prog args env sh =
     (let cmd = \<lparr>workingDirectory = dir, programName = prog, argumentList = args,
                 environmentOverrides = env\<rparr>
      in case run cmd (world sh) of
           (res, w') \<Rightarrow> (res, \<lparr>calls = calls sh @ [cmd], world = w'\<rparr>))"

subsection \<open>The terraform structure\<close>

definition tfStateFileName :: string where
  "tfStateFileName = ''terraform.tfstate''"

record terraform =
  terraformDir :: string
  idendifier :: string

text \<open>The local \<open>initCmd\<close> of \<open>initAndApply\<close>.\<close>

definition initCmd :: "terraform \<Rightarrow> string list" where
  "initCmd p =
     (if length (idendifier p) > 0
      then [''init''] @ [''--backend-config=key='' @ idendifier p]
      else [''init''])"

definition getTFJson :: "'w runner \<Rightarrow> terraform \<Rightarrow> 'w shell \<Rightarrow> (string + string) \<times> 'w shell" where
  "getTFJson run p sh =
     (case executeCommand run (terraformDir p) ''terraform''
             [''output'', ''-state='' @ tfStateFileName, ''-json''] [] sh of
        (Inl e, sh1) \<Rightarrow> (Inl (''generating tf json failed: '' @ e), sh1)
      | (Inr tf, sh1) \<Rightarrow> (Inr tf, sh1))"

definition initAndApply :: "'w runner \<Rightarrow> terraform \<Rightarrow> 'w shell \<Rightarrow> (string + string) \<times> 'w shell" where
  "initAndApply run p sh =
     (case executeCommand run (terraformDir p) ''terraform'' (initCmd p) [] sh of
        (Inl e, sh1) \<Rightarrow> (Inl (''terraform init command failed: '' @ e), sh1)
      | (Inr out1, sh1) \<Rightarrow>
     (case executeCommand run (terraformDir p) ''terraform'' [''apply'', ''-auto-approve''] [] sh1 of
        (Inl e, sh2) \<Rightarrow> (Inl (''terraform apply command failed: '' @ e), sh2)
      | (Inr out2, sh2) \<Rightarrow> getTFJson run p sh2))"

definition destroy :: "'w runner \<Rightarrow> terraform \<Rightarrow> 'w shell \<Rightarrow> string option \<times> 'w shell" where
  "destroy run p sh =
     (case executeCommand run (terraformDir p) ''terraform'' [''destroy'', ''-auto-approve''] [] sh of
        (Inl e, sh1) \<Rightarrow> (Some (''terraform destroy command failed: '' @ e), sh1)
      | (Inr out, sh1) \<Rightarrow> (None, sh1))"

subsection \<open>The provisioners\<close>

text \<open>
  The interface \<open>Provisioner\<close> has three implementations, each a structure of a test path
  and a terraform structure. The constructors never fail (their error is always \<open>nil\<close>).
\<close>

datatype Provisioner =
    AWSProvisioner string terraform
  | DOProvisioner string terraform
  | HetznerProvisioner string terraform

definition NewAWSProvisioner :: "string \<Rightarrow> string \<Rightarrow> Provisioner" where
  "NewAWSProvisioner testPath identifier =
     AWSProvisioner testPath
       \<lparr>terraformDir = ''../../examples/terraform/aws/'', idendifier = identifier\<rparr>"

definition NewDOProvisioner :: "string \<Rightarrow> string \<Rightarrow> Provisioner" where
  "NewDOProvisioner testPath identifier =
     DOProvisioner testPath
       \<lparr>terraformDir = ''../../examples/terraform/digitalocean/'', idendifier = identifier\<rparr>"

definition NewHetznerProvisioner :: "string \<Rightarrow> string \<Rightarrow> Provisioner" where
  "NewHetznerProvisioner testPath identifier =
     HetznerProvisioner testPath
       \<lparr>terraformDir = ''../../examples/terraform/hetzner/'', idendifier = identifier\<rparr>"

text \<open>
  \<open>Provision\<close>: \<open>getenv\<close> is \<open>os.Getenv\<close>, the empty string for a variable that is not set.
  The result is the error text (\<open>Inl\<close>) or the terraform output (\<open>Inr\<close>).
\<close>

fun Provision ::
  "(string \<Rightarrow> string) \<Rightarrow> 'w runner \<Rightarrow> Provisioner \<Rightarrow> 'w shell \<Rightarrow> (string + string) \<times> 'w shell" where
  "Provision getenv run (AWSProvisioner testPath tform) sh =
     (let awsKeyID = getenv ''AWS_ACCESS_KEY_ID'';
          awsSecret = getenv ''AWS_SECRET_ACCESS_KEY''
      in if length awsKeyID = 0 \<or> length awsSecret = 0 then
           (Inl ''unable to run the test suite, AWS_ACCESS_KEY_ID or AWS_SECRET_ACCESS_KEY environment variables cannot be empty'', sh)
         else case initAndApply run tform sh of
                (Inl e, sh1) \<Rightarrow> (Inl e, sh1)
              | (Inr tf, sh1) \<Rightarrow> (Inr tf, sh1))"
| "Provision getenv run (DOProvisioner testPath tform) sh =
     (let doToken = getenv ''DIGITALOCEAN_TOKEN''
      in if length doToken = 0 then
           (Inl ''unable to run the test suite, DIGITALOCEAN_TOKEN environment variable cannot be empty'', sh)
         else case initAndApply run tform sh of
                (Inl e, sh1) \<Rightarrow> (Inl e, sh1)
              | (Inr tf, sh1) \<Rightarrow> (Inr tf, sh1))"
| "Provision getenv run (HetznerProvisioner testPath tform) sh =
     (let hcloudToken = getenv ''HCLOUD_TOKEN''
      in if length hcloudToken = 0 then
           (Inl ''unable to run the test suite, HCLOUD_TOKEN environment variable cannot be empty'', sh)
         else case initAndApply run tform sh of
                (Inl e, sh1) \<Rightarrow> (Inl e, sh1)
              | (Inr tf, sh1) \<Rightarrow> (Inr tf, sh1))"

text \<open>\<open>Cleanup\<close>: the result is the returned error text, \<open>None\<close> for \<open>nil\<close>.\<close>

fun Cleanup :: "'w runner \<Rightarrow> Provisioner \<Rightarrow> 'w shell \<Rightarrow> string option \<times> 'w shell" where
  "Cleanup run (AWSProvisioner testPath tform) sh =
     (case destroy run tform sh of
        (Some e, sh1) \<Rightarrow> (Some e, sh1)
      | (None, sh1) \<Rightarrow>
     (case executeCommand run [] ''rm'' [''-rf'', testPath] [] sh1 of
        (Inl e, sh2) \<Rightarrow> (Some e, sh2)
      | (Inr out, sh2) \<Rightarrow> (None, sh2)))"
| "Cleanup run (DOProvisioner testPath tform) sh =
     (case destroy run tform sh of
        (Some e, sh1) \<Rightarrow> (Some e, sh1)
      | (None, sh1) \<Rightarrow>
     (case executeCommand run [] ''rm'' [''-rf'', testPath] [] sh1 of
        (Inl e, sh2) \<Rightarrow> (Some e, sh2)
      | (Inr out, sh2) \<Rightarrow> (None, sh2)))"
| "Cleanup run (HetznerProvisioner testPath tform) sh =
     (case destroy run tform sh of
        (Some e, sh1) \<Rightarrow> (Some e, sh1)
      | (None, sh1) \<Rightarrow>
     (case executeCommand run [] ''rm'' [''-rf'', testPath] [] sh1 of
        (Inl e, sh2) \<Rightarrow> (Some e, sh2)
      | (Inr out, sh2) \<Rightarrow> (None, sh2)))"

subsection \<open>Reading a provisioner, and runners used as concrete inputs\<close>

fun terraformOf :: "Provisioner \<Rightarrow> terraform" where
  "terraformOf (AWSProvisioner testPath tform) = tform"
| "terraformOf (DOProvisioner testPath tform) = tform"
| "terraformOf (HetznerProvisioner testPath tform) = tform"

fun testPathOf :: "Provisioner \<Rightarrow> string" where
  "testPathOf (AWSProvisioner testPath tform) = testPath"
| "testPathOf (DOProvisioner testPath tform) = testPath"
| "testPathOf (HetznerProvisioner testPath tform) = testPath"

text \<open>The environment variables each \<open>Provision\<close> reads.\<close>

fun requiredCredentials :: "Provisioner \<Rightarrow> string list" where
  "requiredCredentials (AWSProvisioner testPath tform) =
     [''AWS_ACCESS_KEY_ID'', ''AWS_SECRET_ACCESS_KEY'']"
| "requiredCredentials (DOProvisioner testPath tform) = [''DIGITALOCEAN_TOKEN'']"
| "requiredCredentials (HetznerProvisioner testPath tform) = [''HCLOUD_TOKEN'']"

text \<open>The error each \<open>Provision\<close> returns for an empty credential variable.\<close>

fun credentialError :: "Provisioner \<Rightarrow> string" where
  "credentialError (AWSProvisioner testPath tform) =
     ''unable to run the test suite, AWS_ACCESS_KEY_ID or AWS_SECRET_ACCESS_KEY environment variables cannot be empty''"
| "credentialError (DOProvisioner testPath tform) =
     ''unable to run the test suite, DIGITALOCEAN_TOKEN environment variable cannot be empty''"
| "credentialError (HetznerProvisioner testPath tform) =
     ''unable to run the test suite, HCLOUD_TOKEN environment variable cannot be empty''"

text \<open>The terraform command line with the given arguments, run in the directory of \<open>p\<close>.\<close>

definition tfCommand :: "terraform \<Rightarrow> string list \<Rightarrow> command" where
  "tfCommand p args =
     \<lparr>workingDirectory = terraformDir p, programName = ''terraform'', argumentList = args,
      environmentOverrides = []\<rparr>"

text \<open>
  A runner over a world without state: the commands whose first argument is in \<open>bad\<close>
  exit non-zero with the error text \<open>exit status 1\<close>, every other command prints \<open>{}\<close>.
\<close>

definition failOn :: "string list \<Rightarrow> unit runner" where
  "failOn bad cmd w =
     (if argumentList cmd \<noteq> [] \<and> hd (argumentList cmd) \<in> set bad
      then (Inl ''exit status 1'', w) else (Inr ''{}'', w))"

text \<open>
  An environment with every variable set, and one with every variable set but \<open>missing\<close>.
\<close>

definition fullEnv :: "string \<Rightarrow> string" where
  "fullEnv v = ''secret''"

definition envWithout :: "string \<Rightarrow> string \<Rightarrow> string" where
  "envWithout missing v = (if v = missing then [] else ''secret'')"

section \<open>Properties of the teardown\<close>

subsection \<open>What each call adds to the trace\<close>

lemma emit_events [simp]: "events (emit e r) = events r @ [e]"
  by (simp add: emit_def)

lemma clientList_events:
  "clientList c ns k r = (res, r') \<Longrightarrow> events r' = events r @ [EvList k res]"
  by (auto simp: clientList_def split: prod.splits)

lemma clientDelete_events:
  "clientDelete c k x r = (res, r') \<Longrightarrow> events r' = events r @ [EvDelete k x res]"
  by (auto simp: clientDelete_def split: prod.splits)

lemma deleteKinds_append [simp]: "deleteKinds (xs @ ys) = deleteKinds xs @ deleteKinds ys"
  by (induction xs rule: deleteKinds.induct) simp_all

text \<open>A delete loop issues deletes of its own kind only, and never waits.\<close>

lemma deleteItems_events:
  "deleteItems c k msg xs r = (res, r') \<Longrightarrow>
     \<exists>ds n. events r' = events r @ ds \<and> deleteKinds ds = replicate n k \<and>
            (\<forall>d. EvSleep d \<notin> set ds)"
proof (induction xs arbitrary: r)
  case Nil
  then show ?case by simp
next
  case (Cons x xs)
  obtain a r1 where d: "clientDelete c k x r = (a, r1)" by (cases "clientDelete c k x r")
  note ev1 = clientDelete_events [OF d]
  show ?case
  proof (cases a)
    case None
    with Cons.prems d have "deleteItems c k msg xs r1 = (res, r')" by simp
    from Cons.IH [OF this] obtain ds n where
      "events r' = events r1 @ ds" "deleteKinds ds = replicate n k" "\<forall>d. EvSleep d \<notin> set ds"
      by blast
    with ev1 show ?thesis
      by (intro exI [of _ "EvDelete k x a # ds"] exI [of _ "Suc n"]) auto
  next
    case (Some e)
    with Cons.prems d have "r' = r1" by simp
    with ev1 show ?thesis
      by (intro exI [of _ "[EvDelete k x a]"] exI [of _ "Suc 0"]) auto
  qed
qed

lemma deleteItems_kinds:
  "deleteItems c k msg xs r = (res, r') \<Longrightarrow>
     \<exists>n. deleteKinds (events r') = deleteKinds (events r) @ replicate n k"
  by (drule deleteItems_events) auto

lemma clientList_kinds:
  "clientList c ns k r = (res, r') \<Longrightarrow> deleteKinds (events r') = deleteKinds (events r)"
  by (drule clientList_events) simp

text \<open>
  The condition lists Machines once; it asks for another round exactly when the list
  succeeded with a non-zero count.
\<close>

lemma machinesGone_events:
  "machinesGone c ns r = (res, r') \<Longrightarrow>
     \<exists>resp. events r' = events r @ [EvList Machine resp] \<and>
            (res = Inr False \<or> \<not> nonZeroCount resp)"
  by (auto simp: machinesGone_def split: prod.splits sum.splits if_splits
      dest!: clientList_events)

text \<open>
  The poll issues no delete, its last call is a list of Machines, and unless it timed out
  that last list failed or was empty.
\<close>

lemma WaitFor_events:
  "WaitFor ch (machinesGone c ns) r = (res, r') \<Longrightarrow>
     \<exists>evs resp. events r' = events r @ evs @ [EvList Machine resp] \<and> deleteKinds evs = [] \<and>
        (res = Some ErrWaitTimeout \<or> \<not> nonZeroCount resp)"
proof (induction ch arbitrary: r)
  case Nil
  obtain a r1 where g: "machinesGone c ns r = (a, r1)" by (cases "machinesGone c ns r")
  from machinesGone_events [OF g] obtain resp where
    e: "events r1 = events r @ [EvList Machine resp]" "a = Inr False \<or> \<not> nonZeroCount resp"
    by blast
  from Nil g have "r' = r1" by (auto split: sum.splits if_splits)
  moreover from Nil g e(2) have "res = Some ErrWaitTimeout \<or> \<not> nonZeroCount resp"
    by (auto split: sum.splits if_splits)
  ultimately show ?case using e(1) by (intro exI [of _ "[]"] exI [of _ resp]) simp
next
  case (Cons d ch)
  obtain a r1 where g: "machinesGone c ns (emit (EvSleep d) r) = (a, r1)"
    by (cases "machinesGone c ns (emit (EvSleep d) r)")
  from machinesGone_events [OF g] obtain resp where
    e: "events r1 = events r @ [EvSleep d, EvList Machine resp]"
       "a = Inr False \<or> \<not> nonZeroCount resp"
    by auto
  show ?case
  proof (cases "a = Inr False")
    case True
    with Cons.prems g have "WaitFor ch (machinesGone c ns) r1 = (res, r')" by simp
    from Cons.IH [OF this] obtain evs resp' where
      "events r' = events r1 @ evs @ [EvList Machine resp']" "deleteKinds evs = []"
      "res = Some ErrWaitTimeout \<or> \<not> nonZeroCount resp'" by blast
    with e(1) show ?thesis
      by (intro exI [of _ "EvSleep d # EvList Machine resp # evs"] exI [of _ resp']) simp
  next
    case False
    with Cons.prems g have "r' = r1" by (auto split: sum.splits if_splits)
    with e False show ?thesis by (intro exI [of _ "[EvSleep d]"] exI [of _ resp]) simp
  qed
qed

lemma WaitFor_kinds:
  "WaitFor ch (machinesGone c ns) r = (res, r') \<Longrightarrow>
     deleteKinds (events r') = deleteKinds (events r)"
  by (drule WaitFor_events) auto


subsection \<open>The shape of a whole run\<close>

text \<open>The deletes of a run are issued in the order of the hierarchy.\<close>

lemma DeleteAllMachines_kinds:
  assumes "DeleteAllMachines ns ctx r = (res, r')"
  shows "\<exists>ks. deleteKinds (events r') = deleteKinds (events r) @ ks \<and> sorted (map rank ks)"
  using assms
  by (auto simp: DeleteAllMachines_def Poll_def sorted_append
      split: if_splits option.splits prod.splits sum.splits
      dest!: clientList_kinds deleteItems_kinds WaitFor_kinds)


subsection \<open>Evaluating concrete runs\<close>

text \<open>The channel of \<open>wait.Poll 5 180\<close> ticks 36 times, 5 seconds apart.\<close>

lemma poller_5_180: "poller 5 180 = 5 # replicate 35 5"
proof -
  have "poller 5 180 = replicate (Suc 35) 5" by (simp add: poller_def)
  also have "\<dots> = 5 # replicate 35 5" by (rule replicate_Suc)
  finally show ?thesis .
qed

lemmas run_defs = DeleteAllMachines_def mkContext_def start_def clientList_def clientDelete_def
  Poll_def poller_5_180 machinesGone_def emit_def





subsection \<open>The feature flag and the client check\<close>

text \<open>
  C9. With the machine-controller feature enabled and no cluster client
  (\<open>ctx.DynamicClient == nil\<close>), \<open>DeleteAllMachines\<close> returns the error
  \<open>kubernetes client not initialized\<close> at once: the run is left as it was, so no list
  call, no delete call and no wait was issued.
\<close>

theorem DeleteAllMachines_client_not_initialized:
  assumes "Deploy (MachineController (Cluster ctx))" and "DynamicClient ctx = None"
  shows "DeleteAllMachines ns ctx r = (Some (New ''kubernetes client not initialized''), r)"
  using assms by (simp add: DeleteAllMachines_def)

theorem DeleteAllMachines_client_not_initialized_witness:
  "Deploy (MachineController (Cluster (mkContext True (None :: unit client option)))) \<and>
   DynamicClient (mkContext True (None :: unit client option)) = None \<and>
   DeleteAllMachines ''kube-system'' (mkContext True None) (start ())
     = (Some (New ''kubernetes client not initialized''), \<lparr>events = [], cluster = ()\<rparr>)"
  using DeleteAllMachines_client_not_initialized
    [of "mkContext True (None :: unit client option)" "''kube-system''" "start ()"]
  by (simp add: mkContext_def start_def)

text \<open>
  C10. The feature flag is checked before the client: with the deploy flag disabled
  \<open>DeleteAllMachines\<close> returns success after its log line, whatever the client is, also
  when it is nil; the not-initialized error is never reached.
\<close>

theorem DeleteAllMachines_disabled_before_client_check:
  assumes "\<not> Deploy (MachineController (Cluster ctx))"
  shows "DeleteAllMachines ns ctx r =
    (None, emit (EvInfo ''Skipping deleting worker machines because machine-controller is disabled in configuration.'') r)"
  using assms by (simp add: DeleteAllMachines_def)

theorem DeleteAllMachines_disabled_before_client_check_witness:
  "\<not> Deploy (MachineController (Cluster (mkContext False (None :: unit client option)))) \<and>
   DynamicClient (mkContext False (None :: unit client option)) = None \<and>
   fst (DeleteAllMachines ''kube-system'' (mkContext False (None :: unit client option)) (start ())) = None"
  using DeleteAllMachines_disabled_before_client_check
    [of "mkContext False (None :: unit client option)" "''kube-system''" "start ()"]
  by (simp add: mkContext_def)

subsection \<open>A failure to list MachineDeployments\<close>




subsection \<open>The convergence poll\<close>

text \<open>
  C3, as stated, fails: on a cluster where every list is empty the call succeeds, but not
  without a wait. \<open>wait.Poll\<close> waits one interval before it runs the condition for the
  first time, so the trace holds a wait of 5 seconds and one round of the poll.
\<close>

theorem DeleteAllMachines_empty_cluster_counterexample:
  "DeleteAllMachines ''kube-system'' (mkContext True (Some (constClient []))) (start ())
    = (None,
       \<lparr>events = [EvList MachineDeployment (Inr []), EvList MachineSet (Inr []),
                  EvList Machine (Inr []), EvSleep 5, EvList Machine (Inr [])],
        cluster = ()\<rparr>)"
  by (simp add: run_defs constClient_def)

text \<open>
  C3, amended. When every list call returns an empty collection, \<open>DeleteAllMachines\<close>
  returns success without a delete call and after exactly one round of the poll: the
  three lists of the cascade, one wait of one interval (5 seconds), and one list of
  Machines.
\<close>

theorem DeleteAllMachines_empty_cluster:
  assumes "Deploy (MachineController (Cluster ctx))"
    and "DynamicClient ctx = Some c"
    and "\<forall>k s. fst (List c ns k s) = Inr []"
  shows "fst (DeleteAllMachines ns ctx (start s)) = None \<and>
         events (snd (DeleteAllMachines ns ctx (start s))) =
           [EvList MachineDeployment (Inr []), EvList MachineSet (Inr []),
            EvList Machine (Inr []), EvSleep 5, EvList Machine (Inr [])]"
proof -
  have l: "\<And>k r. clientList c ns k r =
      (Inr [], \<lparr>events = events r @ [EvList k (Inr [])], cluster = snd (List c ns k (cluster r))\<rparr>)"
    using assms(3) by (simp add: clientList_def split: prod.splits) (metis fst_conv)
  show ?thesis
    using assms(1,2)
    by (simp add: DeleteAllMachines_def l Poll_def poller_5_180 machinesGone_def emit_def start_def)
qed

theorem DeleteAllMachines_empty_cluster_witness:
  "Deploy (MachineController (Cluster (mkContext True (Some (constClient []))))) \<and>
   (\<forall>k s. fst (List (constClient []) ''kube-system'' k s) = Inr []) \<and>
   fst (DeleteAllMachines ''kube-system'' (mkContext True (Some (constClient []))) (start ())) = None \<and>
   events (snd (DeleteAllMachines ''kube-system'' (mkContext True (Some (constClient []))) (start ()))) =
           [EvList MachineDeployment (Inr []), EvList MachineSet (Inr []),
            EvList Machine (Inr []), EvSleep 5, EvList Machine (Inr [])]"
  using DeleteAllMachines_empty_cluster
    [of "mkContext True (Some (constClient []))" "constClient []" "''kube-system''" "()"]
  by (simp add: mkContext_def constClient_def)



subsection \<open>The order of the deletes\<close>

text \<open>
  C7. In the trace of a run of \<open>DeleteAllMachines\<close>, whenever a delete of kind \<open>k1\<close> is
  issued before a delete of kind \<open>k2\<close>, \<open>k1\<close> is not below \<open>k2\<close> in the hierarchy. So
  every MachineDeployment delete is issued before every MachineSet delete, and every
  MachineSet delete before every Machine delete. This holds for every run, the
  successful ones in particular.
\<close>

theorem DeleteAllMachines_delete_order:
  assumes "events (snd (DeleteAllMachines ns ctx (start s))) =
             pre @ EvDelete k1 x1 a1 # mid @ EvDelete k2 x2 a2 # post"
  shows "rank k1 \<le> rank k2"
proof -
  obtain res r' where run: "DeleteAllMachines ns ctx (start s) = (res, r')"
    by (cases "DeleteAllMachines ns ctx (start s)")
  from DeleteAllMachines_kinds [OF run] have "sorted (map rank (deleteKinds (events r')))"
    by (auto simp: start_def)
  with assms run show ?thesis by (simp add: sorted_append)
qed

theorem DeleteAllMachines_delete_order_witness:
  "fst (DeleteAllMachines ''kube-system'' (mkContext True (Some storeClient))
      (start \<lparr>deployments = [''md1''], sets = [''ms1''], machines = [''m1'']\<rparr>)) = None \<and>
   events (snd (DeleteAllMachines ''kube-system'' (mkContext True (Some storeClient))
      (start \<lparr>deployments = [''md1''], sets = [''ms1''], machines = [''m1'']\<rparr>))) =
     [EvList MachineDeployment (Inr [''md1''])] @ EvDelete MachineDeployment ''md1'' None #
     [EvList MachineSet (Inr [''ms1'']), EvDelete MachineSet ''ms1'' None,
      EvList Machine (Inr [''m1''])] @ EvDelete Machine ''m1'' None #
     [EvSleep 5, EvList Machine (Inr [])] \<and>
   rank MachineDeployment \<le> rank Machine"
proof -
  have ok: "fst (DeleteAllMachines ''kube-system'' (mkContext True (Some storeClient))
      (start \<lparr>deployments = [''md1''], sets = [''ms1''], machines = [''m1'']\<rparr>)) = None"
    by (simp add: run_defs storeClient_def)
  have ev: "events (snd (DeleteAllMachines ''kube-system'' (mkContext True (Some storeClient))
      (start \<lparr>deployments = [''md1''], sets = [''ms1''], machines = [''m1'']\<rparr>))) =
     [EvList MachineDeployment (Inr [''md1''])] @ EvDelete MachineDeployment ''md1'' None #
     [EvList MachineSet (Inr [''ms1'']), EvDelete MachineSet ''ms1'' None,
      EvList Machine (Inr [''m1''])] @ EvDelete Machine ''m1'' None #
     [EvSleep 5, EvList Machine (Inr [])]"
    by (simp add: run_defs storeClient_def)
  from DeleteAllMachines_delete_order [OF ev] ok ev show ?thesis by blast
qed

section \<open>Properties of the provisioners\<close>

subsection \<open>The commands a run invokes\<close>

lemma executeCommand_calls:
  "executeCommand run dir prog args env sh = (res, sh') \<Longrightarrow>
   calls sh' = calls sh @ [\<lparr>workingDirectory = dir, programName = prog, argumentList = args,
                            environmentOverrides = env\<rparr>]"
  by (auto simp: executeCommand_def Let_def split: prod.splits)

lemma initAndApply_calls:
  "calls (snd (initAndApply run tf sh)) \<in>
     {calls sh @ [tfCommand tf (initCmd tf)],
      calls sh @ [tfCommand tf (initCmd tf), tfCommand tf [''apply'', ''-auto-approve'']],
      calls sh @ [tfCommand tf (initCmd tf), tfCommand tf [''apply'', ''-auto-approve''],
                  tfCommand tf [''output'', ''-state=terraform.tfstate'', ''-json'']]}"
  by (auto simp: initAndApply_def getTFJson_def tfStateFileName_def tfCommand_def
      split: prod.splits sum.splits dest!: executeCommand_calls)

lemma Provision_calls:
  "calls (snd (Provision getenv run p sh)) = calls sh \<or>
   calls (snd (Provision getenv run p sh)) = calls (snd (initAndApply run (terraformOf p) sh))"
  by (cases p) (auto simp: Let_def split: prod.splits sum.splits)

lemma Cleanup_calls:
  "calls (snd (Cleanup run p sh)) \<in>
     {calls sh @ [tfCommand (terraformOf p) [''destroy'', ''-auto-approve'']],
      calls sh @ [tfCommand (terraformOf p) [''destroy'', ''-auto-approve''],
       \<lparr>workingDirectory = [], programName = ''rm'',
        argumentList = [''-rf'', testPathOf p], environmentOverrides = []\<rparr>]}"
  by (cases p)
     (auto simp: destroy_def tfCommand_def
      split: prod.splits sum.splits option.splits dest!: executeCommand_calls)

text \<open>Running a command with \<open>failOn bad\<close>.\<close>

lemma executeCommand_failOn:
  "executeCommand (failOn bad) dir prog (a # args) env sh =
     (if a \<in> set bad then Inl ''exit status 1'' else Inr ''{}'',
      \<lparr>calls = calls sh @ [\<lparr>workingDirectory = dir, programName = prog,
                              argumentList = a # args, environmentOverrides = env\<rparr>],
       world = ()\<rparr>)"
  by (simp add: executeCommand_def failOn_def)


lemma failOn_args:
  "failOn bad (tfCommand tf (a # args)) w =
     (if a \<in> set bad then (Inl ''exit status 1'', w) else (Inr ''{}'', w))"
  by (simp add: failOn_def tfCommand_def)

lemmas shell_defs = initAndApply_def getTFJson_def destroy_def startShell_def
  tfStateFileName_def initCmd_def executeCommand_failOn

subsection \<open>Credentials\<close>

text \<open>
  C4. For every provisioner, if one of the environment variables it requires is empty
  (AWS: \<open>AWS_ACCESS_KEY_ID\<close>, \<open>AWS_SECRET_ACCESS_KEY\<close>; DigitalOcean: \<open>DIGITALOCEAN_TOKEN\<close>;
  Hetzner: \<open>HCLOUD_TOKEN\<close>), \<open>Provision\<close> returns its credential error, and the shell is
  left as it was: no subprocess was invoked.
\<close>

theorem Provision_missing_credential:
  assumes "\<exists>v \<in> set (requiredCredentials p). getenv v = []"
  shows "Provision getenv run p sh = (Inl (credentialError p), sh)"
  using assms by (cases p) auto

theorem Provision_missing_credential_witness:
  "(\<exists>v \<in> set (requiredCredentials (NewAWSProvisioner ''/tmp/e2e'' ''42'')).
       envWithout ''AWS_SECRET_ACCESS_KEY'' v = []) \<and>
   Provision (envWithout ''AWS_SECRET_ACCESS_KEY'') (failOn [])
       (NewAWSProvisioner ''/tmp/e2e'' ''42'') (startShell ())
     = (Inl ''unable to run the test suite, AWS_ACCESS_KEY_ID or AWS_SECRET_ACCESS_KEY environment variables cannot be empty'',
        \<lparr>calls = [], world = ()\<rparr>)"
proof -
  have h: "\<exists>v \<in> set (requiredCredentials (NewAWSProvisioner ''/tmp/e2e'' ''42'')).
       envWithout ''AWS_SECRET_ACCESS_KEY'' v = []"
    by (simp add: NewAWSProvisioner_def envWithout_def)
  have "Provision (envWithout ''AWS_SECRET_ACCESS_KEY'') (failOn [])
       (NewAWSProvisioner ''/tmp/e2e'' ''42'') (startShell ())
     = (Inl (credentialError (NewAWSProvisioner ''/tmp/e2e'' ''42'')), startShell ())"
    by (rule Provision_missing_credential [OF h])
  then have "Provision (envWithout ''AWS_SECRET_ACCESS_KEY'') (failOn [])
       (NewAWSProvisioner ''/tmp/e2e'' ''42'') (startShell ())
     = (Inl ''unable to run the test suite, AWS_ACCESS_KEY_ID or AWS_SECRET_ACCESS_KEY environment variables cannot be empty'',
        \<lparr>calls = [], world = ()\<rparr>)"
    by (simp add: NewAWSProvisioner_def startShell_def)
  with h show ?thesis by blast
qed

subsection \<open>The pipeline init, apply, read output\<close>



subsection \<open>The command lines\<close>

text \<open>
  C8. The argument lists handed to terraform: init receives \<open>init\<close>, followed by
  \<open>--backend-config=key=\<close> and the identifier if and only if the identifier is not empty;
  apply receives \<open>apply -auto-approve\<close>; destroy receives \<open>destroy -auto-approve\<close>; output
  receives \<open>output -state=terraform.tfstate -json\<close>. \<open>Provision\<close> invokes a prefix of
  init, apply, output and nothing else; \<open>Cleanup\<close> invokes destroy, and then at most the
  removal of the test path. Every terraform command runs in the directory of the
  provisioner, which the constructors fix to the example directory of the provider.
\<close>

theorem terraform_wire_contract:
  "initCmd tf = (if idendifier tf \<noteq> []
                 then [''init'', ''--backend-config=key='' @ idendifier tf] else [''init'']) \<and>
   tfCommand tf args = \<lparr>workingDirectory = terraformDir tf, programName = ''terraform'',
                         argumentList = args, environmentOverrides = []\<rparr> \<and>
   calls (snd (Provision getenv run p (startShell w))) \<in>
     {[],
      [tfCommand (terraformOf p) (initCmd (terraformOf p))],
      [tfCommand (terraformOf p) (initCmd (terraformOf p)),
       tfCommand (terraformOf p) [''apply'', ''-auto-approve'']],
      [tfCommand (terraformOf p) (initCmd (terraformOf p)),
       tfCommand (terraformOf p) [''apply'', ''-auto-approve''],
       tfCommand (terraformOf p) [''output'', ''-state=terraform.tfstate'', ''-json'']]} \<and>
   calls (snd (Cleanup run p (startShell w))) \<in>
     {[tfCommand (terraformOf p) [''destroy'', ''-auto-approve'']],
      [tfCommand (terraformOf p) [''destroy'', ''-auto-approve''],
       \<lparr>workingDirectory = [], programName = ''rm'',
        argumentList = [''-rf'', testPathOf p], environmentOverrides = []\<rparr>]} \<and>
   terraformOf (NewAWSProvisioner testPath identifier) =
     \<lparr>terraformDir = ''../../examples/terraform/aws/'', idendifier = identifier\<rparr> \<and>
   terraformOf (NewDOProvisioner testPath identifier) =
     \<lparr>terraformDir = ''../../examples/terraform/digitalocean/'', idendifier = identifier\<rparr> \<and>
   terraformOf (NewHetznerProvisioner testPath identifier) =
     \<lparr>terraformDir = ''../../examples/terraform/hetzner/'', idendifier = identifier\<rparr>"
proof -
  have a: "initCmd tf = (if idendifier tf \<noteq> []
                 then [''init'', ''--backend-config=key='' @ idendifier tf] else [''init''])"
    by (simp add: initCmd_def)
  have b: "tfCommand tf args = \<lparr>workingDirectory = terraformDir tf, programName = ''terraform'',
                         argumentList = args, environmentOverrides = []\<rparr>"
    by (simp add: tfCommand_def)
  have c: "calls (snd (Provision getenv run p (startShell w))) \<in>
     {[],
      [tfCommand (terraformOf p) (initCmd (terraformOf p))],
      [tfCommand (terraformOf p) (initCmd (terraformOf p)),
       tfCommand (terraformOf p) [''apply'', ''-auto-approve'']],
      [tfCommand (terraformOf p) (initCmd (terraformOf p)),
       tfCommand (terraformOf p) [''apply'', ''-auto-approve''],
       tfCommand (terraformOf p) [''output'', ''-state=terraform.tfstate'', ''-json'']]}"
    using Provision_calls [of getenv run p "startShell w"]
      initAndApply_calls [of run "terraformOf p" "startShell w"]
    by (auto simp: startShell_def)
  have d: "calls (snd (Cleanup run p (startShell w))) \<in>
     {[tfCommand (terraformOf p) [''destroy'', ''-auto-approve'']],
      [tfCommand (terraformOf p) [''destroy'', ''-auto-approve''],
       \<lparr>workingDirectory = [], programName = ''rm'',
        argumentList = [''-rf'', testPathOf p], environmentOverrides = []\<rparr>]}"
    using Cleanup_calls [of run p "startShell w"] by (simp add: startShell_def)
  have e: "terraformOf (NewAWSProvisioner testPath identifier) =
     \<lparr>terraformDir = ''../../examples/terraform/aws/'', idendifier = identifier\<rparr> \<and>
   terraformOf (NewDOProvisioner testPath identifier) =
     \<lparr>terraformDir = ''../../examples/terraform/digitalocean/'', idendifier = identifier\<rparr> \<and>
   terraformOf (NewHetznerProvisioner testPath identifier) =
     \<lparr>terraformDir = ''../../examples/terraform/hetzner/'', idendifier = identifier\<rparr>"
    by (simp add: NewAWSProvisioner_def NewDOProvisioner_def NewHetznerProvisioner_def)
  from a b c d e show ?thesis by blast
qed

theorem terraform_wire_contract_witness:
  "calls (snd (Provision fullEnv (failOn []) (NewHetznerProvisioner ''/tmp/e2e'' ''42'') (startShell ()))) =
     [\<lparr>workingDirectory = ''../../examples/terraform/hetzner/'', programName = ''terraform'',
       argumentList = [''init'', ''--backend-config=key=42''], environmentOverrides = []\<rparr>,
      \<lparr>workingDirectory = ''../../examples/terraform/hetzner/'', programName = ''terraform'',
       argumentList = [''apply'', ''-auto-approve''], environmentOverrides = []\<rparr>,
      \<lparr>workingDirectory = ''../../examples/terraform/hetzner/'', programName = ''terraform'',
       argumentList = [''output'', ''-state=terraform.tfstate'', ''-json''], environmentOverrides = []\<rparr>] \<and>
   calls (snd (Cleanup (failOn []) (NewHetznerProvisioner ''/tmp/e2e'' ''42'') (startShell ()))) =
     [\<lparr>workingDirectory = ''../../examples/terraform/hetzner/'', programName = ''terraform'',
       argumentList = [''destroy'', ''-auto-approve''], environmentOverrides = []\<rparr>,
      \<lparr>workingDirectory = [], programName = ''rm'',
       argumentList = [''-rf'', ''/tmp/e2e''], environmentOverrides = []\<rparr>] \<and>
   initCmd \<lparr>terraformDir = ''../../examples/terraform/hetzner/'', idendifier = []\<rparr> = [''init''] \<and>
   terraformOf (NewHetznerProvisioner ''/tmp/e2e'' ''42'') =
     \<lparr>terraformDir = ''../../examples/terraform/hetzner/'', idendifier = ''42''\<rparr>"
proof -
  let ?p = "NewHetznerProvisioner ''/tmp/e2e'' ''42''"
  let ?tf0 = "\<lparr>terraformDir = ''../../examples/terraform/hetzner/'', idendifier = []\<rparr>"
  note t = terraform_wire_contract [of ?tf0 "[]" fullEnv "failOn []" ?p "()" "''/tmp/e2e''" "''42''"]
  have a: "initCmd ?tf0 = [''init'']" using t by simp
  have b: "terraformOf ?p = \<lparr>terraformDir = ''../../examples/terraform/hetzner/'', idendifier = ''42''\<rparr>"
    using t by blast
  have c: "calls (snd (Provision fullEnv (failOn []) ?p (startShell ()))) =
     [\<lparr>workingDirectory = ''../../examples/terraform/hetzner/'', programName = ''terraform'',
       argumentList = [''init'', ''--backend-config=key=42''], environmentOverrides = []\<rparr>,
      \<lparr>workingDirectory = ''../../examples/terraform/hetzner/'', programName = ''terraform'',
       argumentList = [''apply'', ''-auto-approve''], environmentOverrides = []\<rparr>,
      \<lparr>workingDirectory = ''../../examples/terraform/hetzner/'', programName = ''terraform'',
       argumentList = [''output'', ''-state=terraform.tfstate'', ''-json''], environmentOverrides = []\<rparr>]"
    by (simp add: NewHetznerProvisioner_def fullEnv_def shell_defs)
  have d: "calls (snd (Cleanup (failOn []) ?p (startShell ()))) =
     [\<lparr>workingDirectory = ''../../examples/terraform/hetzner/'', programName = ''terraform'',
       argumentList = [''destroy'', ''-auto-approve''], environmentOverrides = []\<rparr>,
      \<lparr>workingDirectory = [], programName = ''rm'',
       argumentList = [''-rf'', ''/tmp/e2e''], environmentOverrides = []\<rparr>]"
    by (simp add: NewHetznerProvisioner_def shell_defs)
  from a b c d show ?thesis by blast
qed

subsection \<open>Cleanup\<close>

text \<open>
  C1, as stated, fails: when destroy fails, \<open>Cleanup\<close> returns at once. The destroy
  command is the only command invoked, and the test directory is not removed.
\<close>

theorem Cleanup_destroy_failure_counterexample:
  "Cleanup (failOn [''destroy'']) (NewAWSProvisioner ''/tmp/e2e'' ''42'') (startShell ()) =
     (Some ''terraform destroy command failed: exit status 1'',
      \<lparr>calls = [\<lparr>workingDirectory = ''../../examples/terraform/aws/'', programName = ''terraform'',
                  argumentList = [''destroy'', ''-auto-approve''], environmentOverrides = []\<rparr>],
       world = ()\<rparr>) \<and>
   ''rm'' \<notin> set (map programName (calls (snd
      (Cleanup (failOn [''destroy'']) (NewAWSProvisioner ''/tmp/e2e'' ''42'') (startShell ())))))"
  by (simp add: NewAWSProvisioner_def shell_defs)

text \<open>
  C1, amended. For every provisioner, \<open>Cleanup\<close> attempts destroy first. When destroy
  fails, \<open>Cleanup\<close> returns the error of the destroy failure and does not attempt the
  removal of the test directory; the removal (\<open>rm -rf\<close> of the test path) is attempted
  when destroy succeeded.
\<close>

theorem Cleanup_destroy_then_remove:
  "(\<forall>e w1.
      run (tfCommand (terraformOf p) [''destroy'', ''-auto-approve'']) w = (Inl e, w1) \<longrightarrow>
      Cleanup run p (startShell w) =
        (Some (''terraform destroy command failed: '' @ e),
         \<lparr>calls = [tfCommand (terraformOf p) [''destroy'', ''-auto-approve'']], world = w1\<rparr>)) \<and>
   (\<forall>out w1.
      run (tfCommand (terraformOf p) [''destroy'', ''-auto-approve'']) w = (Inr out, w1) \<longrightarrow>
      calls (snd (Cleanup run p (startShell w))) =
        [tfCommand (terraformOf p) [''destroy'', ''-auto-approve''],
         \<lparr>workingDirectory = [], programName = ''rm'',
          argumentList = [''-rf'', testPathOf p], environmentOverrides = []\<rparr>])"
  by (cases p)
     (auto simp: destroy_def tfCommand_def executeCommand_def startShell_def Let_def
           split: prod.splits sum.splits)

theorem Cleanup_destroy_then_remove_witness:
  "Cleanup (failOn [''destroy'']) (NewDOProvisioner ''/tmp/e2e'' ''42'') (startShell ()) =
     (Some ''terraform destroy command failed: exit status 1'',
      \<lparr>calls = [\<lparr>workingDirectory = ''../../examples/terraform/digitalocean/'', programName = ''terraform'',
                  argumentList = [''destroy'', ''-auto-approve''], environmentOverrides = []\<rparr>],
       world = ()\<rparr>) \<and>
   calls (snd (Cleanup (failOn []) (NewDOProvisioner ''/tmp/e2e'' ''42'') (startShell ()))) =
     [\<lparr>workingDirectory = ''../../examples/terraform/digitalocean/'', programName = ''terraform'',
       argumentList = [''destroy'', ''-auto-approve''], environmentOverrides = []\<rparr>,
      \<lparr>workingDirectory = [], programName = ''rm'',
       argumentList = [''-rf'', ''/tmp/e2e''], environmentOverrides = []\<rparr>]"
  using Cleanup_destroy_then_remove [of "failOn [''destroy'']" "NewDOProvisioner ''/tmp/e2e'' ''42''" "()"]
        Cleanup_destroy_then_remove [of "failOn []" "NewDOProvisioner ''/tmp/e2e'' ''42''" "()"]
  by (simp add: failOn_args) (simp add: NewDOProvisioner_def tfCommand_def)

end
